theory Spec2Isabelle
  imports Complex_Main "HOL-Library.Sublist" "HOL-Library.AList"
begin

section \<open>Circuit breaker (app/middleware/resilience.py, class CircuitBreaker)\<close>

text \<open>
  The breaker's \<open>state\<close> field holds one of the three strings "CLOSED", "OPEN" and
  "HALF_OPEN". Clock readings (\<open>time.time()\<close>) are real numbers of seconds. The
  \<open>expected_exception\<close> field is the class that \<open>issubclass\<close> tests the raised exception
  against; here it is the predicate that says whether an exception is of that class.
\<close>

datatype breaker_state = CLOSED | OPEN | HALF_OPEN

record 'e circuit_breaker =
  failure_threshold :: int
  timeout :: int
  expected_exception :: "'e \<Rightarrow> bool"
  failure_count :: int
  last_failure_time :: "real option"
  state :: breaker_state

datatype http_exception = HTTPException int string

definition HTTP_503_SERVICE_UNAVAILABLE :: int where
  "HTTP_503_SERVICE_UNAVAILABLE = 503"

definition circuit_open :: http_exception where
  "circuit_open = HTTPException HTTP_503_SERVICE_UNAVAILABLE
     ''Service temporarily unavailable (circuit breaker open)''"

text \<open>\<open>__init__\<close>: the counters start at zero, no failure time, state CLOSED.\<close>

definition init :: "int \<Rightarrow> int \<Rightarrow> ('e \<Rightarrow> bool) \<Rightarrow> 'e circuit_breaker" where
  "init threshold tmo expected =
     \<lparr>failure_threshold = threshold, timeout = tmo, expected_exception = expected,
      failure_count = 0, last_failure_time = None, state = CLOSED\<rparr>"

text \<open>
  \<open>__aenter__\<close> at clock reading \<open>now\<close>. The test
  \<open>self.last_failure_time and time.time() - self.last_failure_time >= self.timeout\<close>
  is false when \<open>last_failure_time\<close> is \<open>None\<close> and also when it is the float \<open>0.0\<close>
  (Python truthiness). \<open>Inl\<close> is the raised HTTPException, \<open>Inr\<close> the breaker after a
  normal return.
\<close>

definition aenter :: "real \<Rightarrow> 'e circuit_breaker \<Rightarrow> http_exception + 'e circuit_breaker" where
  "aenter now cb =
     (if state cb = OPEN then
        (case last_failure_time cb of
           None \<Rightarrow> Inl circuit_open
         | Some t \<Rightarrow>
             if t \<noteq> 0 \<and> now - t \<ge> real_of_int (timeout cb)
             then Inr (cb\<lparr>state := HALF_OPEN\<rparr>)
             else Inl circuit_open)
      else Inr cb)"

text \<open>
  \<open>__aexit__\<close>: \<open>exc\<close> is \<open>None\<close> when the body finished normally (\<open>exc_type is None\<close>)
  and \<open>Some e\<close> when it raised \<open>e\<close>; \<open>now\<close> is the clock reading taken when a failure
  is recorded. The first component is the method's return value (a true value would
  make the \<open>async with\<close> statement swallow the exception).
\<close>

definition aexit :: "real \<Rightarrow> 'e option \<Rightarrow> 'e circuit_breaker \<Rightarrow> bool \<times> 'e circuit_breaker" where
  "aexit now exc cb =
     (case exc of
        None \<Rightarrow>
          (False, if state cb = HALF_OPEN then cb\<lparr>failure_count := 0, state := CLOSED\<rparr> else cb)
      | Some e \<Rightarrow>
          if expected_exception cb e then
            (let cb1 = cb\<lparr>failure_count := failure_count cb + 1, last_failure_time := Some now\<rparr>;
                 cb2 = (if failure_count cb1 \<ge> failure_threshold cb1
                        then cb1\<lparr>state := OPEN\<rparr> else cb1)
             in (False, cb2))
          else (False, cb))"

text \<open>
  The statement \<open>async with breaker: result = await operation()\<close> of the class's
  docstring. The guarded operation acts on the rest of the world \<open>'w\<close> and either
  returns a value or raises; it runs only when \<open>__aenter__\<close> returns. When the body
  raises, the exception is swallowed if \<open>__aexit__\<close> returns a true value and
  re-raised otherwise.
\<close>

datatype ('e, 'a) outcome = Returned 'a | Raised 'e

datatype ('e, 'a) with_result =
    Rejected http_exception
  | Completed 'a
  | Propagated 'e
  | Suppressed

type_synonym ('w, 'e, 'a) operation = "'w \<Rightarrow> ('e, 'a) outcome \<times> 'w"

definition async_with ::
  "real \<Rightarrow> real \<Rightarrow> ('w, 'e, 'a) operation \<Rightarrow> 'e circuit_breaker \<times> 'w
     \<Rightarrow> ('e, 'a) with_result \<times> 'e circuit_breaker \<times> 'w" where
  "async_with t_enter t_exit operation s =
     (case s of (cb, w) \<Rightarrow>
        (case aenter t_enter cb of
           Inl h \<Rightarrow> (Rejected h, cb, w)
         | Inr cb1 \<Rightarrow>
             (case operation w of
                (Returned v, w1) \<Rightarrow>
                  (case aexit t_exit None cb1 of (_, cb2) \<Rightarrow> (Completed v, cb2, w1))
              | (Raised e, w1) \<Rightarrow>
                  (case aexit t_exit (Some e) cb1 of
                     (swallow, cb2) \<Rightarrow> (if swallow then Suppressed else Propagated e, cb2, w1)))))"

text \<open>A run of guarded calls, one after the other, each with its own clock readings.\<close>

fun guarded_calls ::
  "(real \<times> real \<times> ('w, 'e, 'a) operation) list \<Rightarrow> 'e circuit_breaker \<times> 'w
     \<Rightarrow> 'e circuit_breaker \<times> 'w" where
  "guarded_calls [] s = s"
| "guarded_calls ((t_enter, t_exit, operation) # cs) s =
     guarded_calls cs (snd (async_with t_enter t_exit operation s))"

text \<open>An operation that raises an exception of the expected class, whatever the world.\<close>

definition raises_expected :: "('e \<Rightarrow> bool) \<Rightarrow> ('w, 'e, 'a) operation \<Rightarrow> bool" where
  "raises_expected expected operation =
     (\<forall>w. case fst (operation w) of Raised e \<Rightarrow> expected e | Returned _ \<Rightarrow> False)"

text \<open>
  The default \<open>expected_exception = Exception\<close>: every exception of the model is an
  instance of it. \<open>raising e\<close> and \<open>returning v\<close> are the operations that raise \<open>e\<close> and
  return \<open>v\<close> and leave the world as it is.
\<close>

definition Exception :: "'e \<Rightarrow> bool" where
  "Exception e = True"

definition raising :: "'e \<Rightarrow> ('w, 'e, 'a) operation" where
  "raising e w = (Raised e, w)"

definition returning :: "'a \<Rightarrow> ('w, 'e, 'a) operation" where
  "returning v w = (Returned v, w)"

text \<open>
  The breakers that the class's methods can produce from a fresh instance, in any
  interleaving of entries and exits, with a clock that reads positive (Unix) time.
\<close>

inductive reachable :: "'e circuit_breaker \<Rightarrow> bool" where
  reachable_init: "reachable (init threshold tmo expected)"
| reachable_aenter: "reachable cb \<Longrightarrow> 0 < now \<Longrightarrow> aenter now cb = Inr cb' \<Longrightarrow> reachable cb'"
| reachable_aexit: "reachable cb \<Longrightarrow> 0 < now \<Longrightarrow> aexit now exc cb = (b, cb') \<Longrightarrow> reachable cb'"


section \<open>Rate limiter (app/middleware/resilience.py, class RateLimitMiddleware)\<close>

text \<open>The rate-limit fields of the settings object (app/core/config.py).\<close>

record settings =
  RATE_LIMIT_ENABLED :: bool
  RATE_LIMIT_REQUESTS :: int
  RATE_LIMIT_WINDOW_SECONDS :: int
  AUTH_RATE_LIMIT_REQUESTS :: int
  AUTH_RATE_LIMIT_WINDOW_SECONDS :: int
  UPLOAD_RATE_LIMIT_REQUESTS :: int
  UPLOAD_RATE_LIMIT_WINDOW_SECONDS :: int

text \<open>The defaults that app/core/config.py gives these fields.\<close>

definition default_settings :: settings where
  "default_settings =
     \<lparr>RATE_LIMIT_ENABLED = True,
      RATE_LIMIT_REQUESTS = 100, RATE_LIMIT_WINDOW_SECONDS = 60,
      AUTH_RATE_LIMIT_REQUESTS = 5, AUTH_RATE_LIMIT_WINDOW_SECONDS = 300,
      UPLOAD_RATE_LIMIT_REQUESTS = 10, UPLOAD_RATE_LIMIT_WINDOW_SECONDS = 300\<rparr>"

text \<open>
  What the middleware reads of a request: \<open>request.client.host\<close> (absent when
  \<open>request.client\<close> is \<open>None\<close>) and \<open>request.url.path\<close>.
\<close>

record request =
  client_host :: "string option"
  url_path :: string

text \<open>
  A response: status code, JSON body (an ordered dictionary of strings and integers)
  and headers. A header assignment \<open>response.headers[k] = v\<close> is a map update.
\<close>

datatype json = JStr string | JInt int

record response =
  status_code :: int
  content :: "(string \<times> json) list"
  headers :: "string \<rightharpoonup> string"

datatype py_error = IndexError

text \<open>Python's \<open>str\<close> on an integer: decimal digits, with a leading minus sign.\<close>

definition digit_char :: "nat \<Rightarrow> char" where
  "digit_char d = char_of (48 + d)"

fun str_nat :: "nat \<Rightarrow> string" where
  "str_nat n = (if n < 10 then [digit_char n] else str_nat (n div 10) @ [digit_char (n mod 10)])"

declare str_nat.simps [simp del]

definition str :: "int \<Rightarrow> string" where
  "str i = (if i < 0 then CHR ''-'' # str_nat (nat (- i)) else str_nat (nat i))"

text \<open>Python's \<open>int\<close> on a float: truncation towards zero.\<close>

definition py_int :: "real \<Rightarrow> int" where
  "py_int x = (if 0 \<le> x then \<lfloor>x\<rfloor> else \<lceil>x\<rceil>)"

definition get_limit_for_endpoint :: "settings \<Rightarrow> string \<Rightarrow> int \<times> int" where
  "get_limit_for_endpoint st path =
     (if prefix ''/api/v1/security'' path then
        (AUTH_RATE_LIMIT_REQUESTS st, AUTH_RATE_LIMIT_WINDOW_SECONDS st)
      else if prefix ''/api/v1/files'' path then
        (UPLOAD_RATE_LIMIT_REQUESTS st, UPLOAD_RATE_LIMIT_WINDOW_SECONDS st)
      else (RATE_LIMIT_REQUESTS st, RATE_LIMIT_WINDOW_SECONDS st))"

text \<open>
  The loop \<open>while client_queue and client_queue[0] < now - window_seconds:
  client_queue.popleft()\<close>, with \<open>cutoff = now - window_seconds\<close>.
\<close>

fun purge :: "real \<Rightarrow> real list \<Rightarrow> real list" where
  "purge cutoff [] = []"
| "purge cutoff (t # ts) = (if t < cutoff then purge cutoff ts else t # ts)"

definition HTTP_429_TOO_MANY_REQUESTS :: int where
  "HTTP_429_TOO_MANY_REQUESTS = 429"

text \<open>
  \<open>JSONResponse(status_code, content, headers)\<close> with the headers the caller gives
  (the framework's own content headers are not part of this program).
\<close>

definition JSONResponse :: "int \<Rightarrow> (string \<times> json) list \<Rightarrow> (string \<times> string) list \<Rightarrow> response" where
  "JSONResponse code body hs = \<lparr>status_code = code, content = body, headers = map_of hs\<rparr>"

definition client_ip_of :: "request \<Rightarrow> string" where
  "client_ip_of req = (case client_host req of Some h \<Rightarrow> h | None \<Rightarrow> ''unknown'')"

text \<open>The window a client has in the dictionary (empty when the client is unknown).\<close>

definition window_of :: "(string \<rightharpoonup> real list) \<Rightarrow> string \<Rightarrow> real list" where
  "window_of client_requests ip = (case client_requests ip of None \<Rightarrow> [] | Some q \<Rightarrow> q)"

text \<open>
  \<open>call_next\<close> is the rest of the pipeline. While \<open>await call_next(request)\<close> is
  suspended, other requests pass through the same middleware object and purge and
  append to the deques of \<open>self.client_requests\<close>; so awaiting it gives the response
  together with the dictionary as it is when the await returns.
\<close>

type_synonym pipeline =
  "request \<Rightarrow> (string \<rightharpoonup> real list) \<Rightarrow> response \<times> (string \<rightharpoonup> real list)"

text \<open>
  \<open>dispatch\<close>: \<open>client_requests\<close> is the dictionary from client IP to that client's
  deque of timestamps (oldest first); \<open>now\<close> is the clock reading. The result is the
  response, or the exception that \<open>client_queue[0]\<close> raises on an empty deque, together
  with the dictionary after the call (the deque is created and purged in place before
  the limit is tested). The code never replaces or removes the deque under a key, so
  the \<open>len(client_queue)\<close> that is read after the await for the remaining count is the
  length of the deque under the client's key in the dictionary the await leaves.
\<close>

definition rate_limit_dispatch ::
  "settings \<Rightarrow> pipeline \<Rightarrow> real \<Rightarrow> request \<Rightarrow> (string \<rightharpoonup> real list)
     \<Rightarrow> (py_error + response) \<times> (string \<rightharpoonup> real list)" where
  "rate_limit_dispatch st call_next now req client_requests =
     (if \<not> RATE_LIMIT_ENABLED st then
        (case call_next req client_requests of (response, after) \<Rightarrow> (Inr response, after))
      else
        let client_ip = client_ip_of req;
            (max_requests, window_seconds) = get_limit_for_endpoint st (url_path req);
            queue0 = (case client_requests client_ip of None \<Rightarrow> [] | Some q \<Rightarrow> q);
            client_queue = purge (now - real_of_int window_seconds) queue0;
            purged = client_requests(client_ip \<mapsto> client_queue)
        in
          if int (length client_queue) \<ge> max_requests then
            (case client_queue of
               [] \<Rightarrow> (Inl IndexError, purged)
             | oldest_request # _ \<Rightarrow>
                 let retry_after = py_int (oldest_request + real_of_int window_seconds - now) + 1
                 in (Inr (JSONResponse HTTP_429_TOO_MANY_REQUESTS
                           [(''error'', JStr ''rate_limit_exceeded''),
                            (''message'', JStr (''Too many requests. Max '' @ str max_requests
                               @ '' requests per '' @ str window_seconds @ '' seconds'')),
                            (''retry_after_seconds'', JInt retry_after)]
                           [(''Retry-After'', str retry_after)]),
                     purged))
          else
            (case call_next req (client_requests(client_ip \<mapsto> client_queue @ [now])) of
               (response, after) \<Rightarrow>
                 let hs1 = (headers response)(''X-RateLimit-Limit'' \<mapsto> str max_requests);
                     hs2 = hs1(''X-RateLimit-Remaining'' \<mapsto>
                             str (max 0 (max_requests - int (length (window_of after client_ip)))));
                     hs3 = hs2(''X-RateLimit-Reset'' \<mapsto>
                             str (py_int (now + real_of_int window_seconds)))
                 in (Inr (response\<lparr>headers := hs3\<rparr>), after)))"

text \<open>
  What a caller sees of the result of \<open>dispatch\<close>: the status code, a header, and the
  \<open>retry_after_seconds\<close> field of the JSON body.
\<close>

definition status_of :: "py_error + response \<Rightarrow> int option" where
  "status_of res = (case res of Inl _ \<Rightarrow> None | Inr r \<Rightarrow> Some (status_code r))"

definition header_of :: "py_error + response \<Rightarrow> string \<Rightarrow> string option" where
  "header_of res name = (case res of Inl _ \<Rightarrow> None | Inr r \<Rightarrow> headers r name)"

definition retry_after_of :: "py_error + response \<Rightarrow> json option" where
  "retry_after_of res =
     (case res of Inl _ \<Rightarrow> None | Inr r \<Rightarrow> map_of (content r) ''retry_after_seconds'')"

text \<open>
  Two pipelines, both answering with an empty 200 response: with \<open>ok_handler\<close> no other
  request runs during the await; with \<open>busy_handler ip t\<close> another request of client
  \<open>ip\<close> is admitted at time \<open>t\<close> during the await.
\<close>

definition ok_handler :: pipeline where
  "ok_handler req client_requests =
     (\<lparr>status_code = 200, content = [], headers = Map.empty\<rparr>, client_requests)"

definition busy_handler :: "string \<Rightarrow> real \<Rightarrow> pipeline" where
  "busy_handler ip t req client_requests =
     (\<lparr>status_code = 200, content = [], headers = Map.empty\<rparr>,
      client_requests(ip \<mapsto> window_of client_requests ip @ [t]))"

section \<open>TTL cache (app/services/cache.py, class CacheService)\<close>

text \<open>
  A \<open>datetime\<close> is a whole number of microseconds. The dictionary \<open>_cache\<close> keeps its
  keys in insertion order, so it is an association list with one pair per key;
  assignment to a key is \<open>AList.update\<close> and \<open>del\<close> is \<open>AList.delete\<close>.
\<close>

record 'v cache_entry =
  entry_value :: 'v
  expires_at :: int
  created_at :: int
  hits :: int

record cache_stats =
  stat_hits :: int
  stat_misses :: int
  stat_sets :: int
  stat_deletes :: int
  stat_evictions :: int

record 'v cache_service =
  cache :: "(string \<times> 'v cache_entry) list"
  default_ttl :: int
  stats :: cache_stats

text \<open>\<open>CacheEntry.is_expired\<close> at the clock reading \<open>now\<close> (\<open>datetime.utcnow()\<close>).\<close>

definition is_expired :: "int \<Rightarrow> 'v cache_entry \<Rightarrow> bool" where
  "is_expired now entry = (now > expires_at entry)"

definition increment_hits :: "'v cache_entry \<Rightarrow> 'v cache_entry" where
  "increment_hits entry = entry\<lparr>hits := hits entry + 1\<rparr>"

definition get :: "int \<Rightarrow> string \<Rightarrow> 'v cache_service \<Rightarrow> 'v option \<times> 'v cache_service" where
  "get now key c =
     (case map_of (cache c) key of
        None \<Rightarrow> (None, c\<lparr>stats := (stats c)\<lparr>stat_misses := stat_misses (stats c) + 1\<rparr>\<rparr>)
      | Some entry \<Rightarrow>
          if is_expired now entry then
            (None, c\<lparr>cache := AList.delete key (cache c),
                     stats := (stats c)\<lparr>stat_misses := stat_misses (stats c) + 1,
                                         stat_evictions := stat_evictions (stats c) + 1\<rparr>\<rparr>)
          else
            (Some (entry_value entry),
             c\<lparr>cache := AList.update key (increment_hits entry) (cache c),
               stats := (stats c)\<lparr>stat_hits := stat_hits (stats c) + 1\<rparr>\<rparr>))"

definition delete_key :: "string \<Rightarrow> 'v cache_service \<Rightarrow> bool \<times> 'v cache_service" where
  "delete_key key c =
     (if key \<in> fst ` set (cache c) then
        (True, c\<lparr>cache := AList.delete key (cache c),
                 stats := (stats c)\<lparr>stat_deletes := stat_deletes (stats c) + 1\<rparr>\<rparr>)
      else (False, c))"

text \<open>
  \<open>exists\<close> returns its answer and the service as the call leaves it. An entry object
  is always a true value in Python, so \<open>entry and not entry.is_expired()\<close> is false
  exactly when the key is missing or the entry has expired.
\<close>

definition exists :: "int \<Rightarrow> string \<Rightarrow> 'v cache_service \<Rightarrow> bool \<times> 'v cache_service" where
  "exists now key c =
     (case map_of (cache c) key of
        None \<Rightarrow> (False, c)
      | Some entry \<Rightarrow> if \<not> is_expired now entry then (True, c) else (False, c))"

definition get_keys_by_pattern :: "string \<Rightarrow> 'v cache_service \<Rightarrow> string list" where
  "get_keys_by_pattern pattern c = [key \<leftarrow> map fst (cache c). prefix pattern key]"

definition invalidate_pattern :: "string \<Rightarrow> 'v cache_service \<Rightarrow> int \<times> 'v cache_service" where
  "invalidate_pattern pattern c =
     (let keys = get_keys_by_pattern pattern c
      in (int (length keys), fold (\<lambda>key c'. snd (delete_key key c')) keys c))"

section \<open>Metrics (app/middleware/resilience.py, class MetricsMiddleware)\<close>

text \<open>
  Durations and averages are real numbers. \<open>response_times\<close> is the deque created with
  \<open>maxlen=1000\<close>; \<open>status_codes\<close> and \<open>endpoints\<close> are dictionaries in insertion order.
\<close>

record endpoint_data =
  count :: int
  avg_response_time :: real

record metrics =
  total_requests :: int
  total_errors :: int
  response_times :: "real list"
  status_codes :: "(int \<times> int) list"
  endpoints :: "(string \<times> endpoint_data) list"

definition response_times_maxlen :: nat where
  "response_times_maxlen = 1000"

text \<open>\<open>deque.append\<close> on a deque with a \<open>maxlen\<close>: a full deque drops its leftmost item.\<close>

definition deque_append :: "nat \<Rightarrow> 'a list \<Rightarrow> 'a \<Rightarrow> 'a list" where
  "deque_append maxlen xs x =
     (if maxlen = 0 then xs
      else if length xs \<ge> maxlen then tl xs @ [x]
      else xs @ [x])"

definition metrics_init :: metrics where
  "metrics_init = \<lparr>total_requests = 0, total_errors = 0, response_times = [],
                    status_codes = [], endpoints = []\<rparr>"

text \<open>
  The effect of \<open>dispatch\<close> on the metrics for a request to \<open>path\<close>: \<open>result\<close> is
  \<open>Inr (duration, status)\<close> when \<open>call_next\<close> returned a response with that status code
  after \<open>duration\<close> seconds, and \<open>Inl e\<close> when it raised \<open>e\<close> (which is re-raised).
\<close>

definition metrics_dispatch :: "string \<Rightarrow> 'e + (real \<times> int) \<Rightarrow> metrics \<Rightarrow> metrics" where
  "metrics_dispatch path result m =
     (let m1 = m\<lparr>total_requests := total_requests m + 1\<rparr>
      in case result of
           Inl e \<Rightarrow> m1\<lparr>total_errors := total_errors m1 + 1\<rparr>
         | Inr (duration, code) \<Rightarrow>
             let m2 = m1\<lparr>response_times :=
                          deque_append response_times_maxlen (response_times m1) duration\<rparr>;
                 m3 = m2\<lparr>status_codes :=
                          AList.update code
                            ((case map_of (status_codes m2) code of None \<Rightarrow> 0 | Some k \<Rightarrow> k) + 1)
                            (status_codes m2)\<rparr>;
                 endpoint = (case map_of (endpoints m3) path of
                               None \<Rightarrow> \<lparr>count = 0, avg_response_time = 0\<rparr>
                             | Some d \<Rightarrow> d);
                 n = count endpoint + 1;
                 endpoint' = \<lparr>count = n,
                              avg_response_time =
                                (avg_response_time endpoint * real_of_int (n - 1) + duration)
                                  / real_of_int n\<rparr>;
                 m4 = m3\<lparr>endpoints := AList.update path endpoint' (endpoints m3)\<rparr>
             in if code \<ge> 400 then m4\<lparr>total_errors := total_errors m4 + 1\<rparr> else m4)"

record snapshot =
  snap_total_requests :: int
  snap_total_errors :: int
  snap_error_rate :: real
  snap_avg_response_time :: real
  snap_status_codes :: "(int \<times> int) list"
  snap_top_endpoints :: "(string \<times> endpoint_data) list"

definition get_metrics :: "metrics \<Rightarrow> snapshot" where
  "get_metrics m =
     (let times = response_times m
      in \<lparr>snap_total_requests = total_requests m,
          snap_total_errors = total_errors m,
          snap_error_rate =
            (if total_requests m > 0
             then real_of_int (total_errors m) / real_of_int (total_requests m) else 0),
          snap_avg_response_time =
            (if times \<noteq> [] then sum_list times / real (length times) else 0),
          snap_status_codes = status_codes m,
          snap_top_endpoints =
            take 10 (sort_key (\<lambda>p. - count (snd p)) (endpoints m))\<rparr>)"

text \<open>The metrics after a sequence of requests, and the durations that were recorded.\<close>

fun metrics_run :: "(string \<times> ('e + (real \<times> int))) list \<Rightarrow> metrics \<Rightarrow> metrics" where
  "metrics_run [] m = m"
| "metrics_run ((path, result) # rs) m = metrics_run rs (metrics_dispatch path result m)"

fun recorded_durations :: "(string \<times> ('e + (real \<times> int))) list \<Rightarrow> real list" where
  "recorded_durations [] = []"
| "recorded_durations ((path, Inl e) # rs) = recorded_durations rs"
| "recorded_durations ((path, Inr (duration, code)) # rs) = duration # recorded_durations rs"


section \<open>Properties of the circuit breaker\<close>

lemma reachable_invariant:
  "reachable cb \<Longrightarrow>
     0 \<le> failure_count cb \<and>
     (state cb \<noteq> CLOSED \<longrightarrow>
        failure_threshold cb \<le> failure_count cb \<and> (\<exists>t. last_failure_time cb = Some t \<and> 0 < t))"
proof (induction rule: reachable.induct)
  case (reachable_init threshold tmo expected)
  show ?case by (simp add: init_def)
next
  case (reachable_aenter cb now cb')
  then show ?case
    by (auto simp: aenter_def split: if_splits option.splits)
next
  case (reachable_aexit cb now exc b cb')
  then show ?case
    by (auto simp: aexit_def Let_def split: if_splits option.splits)
qed

lemma raises_expectedD:
  "raises_expected expected operation \<Longrightarrow> \<exists>e w1. operation w = (Raised e, w1) \<and> expected e"
  unfolding raises_expected_def
  by (erule allE [of _ w], cases "operation w") (auto split: outcome.splits)

lemma raises_expected_raising [simp]: "raises_expected expected (raising e) = expected e"
  by (simp add: raises_expected_def raising_def)

text \<open>
  One guarded call whose operation raises an expected exception, on a breaker that is
  CLOSED or has its count at the threshold: the breaker is OPEN afterwards, or it is
  still CLOSED, below the threshold, with one more failure counted.
\<close>

lemma failing_call_step:
  fixes t_enter t_exit :: real and w :: 'w and operation :: "('w, 'e, 'a) operation"
  assumes fails: "raises_expected (expected_exception cb) operation"
    and inv: "state cb \<noteq> CLOSED \<longrightarrow> failure_threshold cb \<le> failure_count cb"
  defines "cb' \<equiv> fst (snd (async_with t_enter t_exit operation (cb, w)))"
  shows "expected_exception cb' = expected_exception cb"
    and "failure_threshold cb' = failure_threshold cb"
    and "state cb' = OPEN \<and> failure_threshold cb \<le> failure_count cb'
           \<and> failure_count cb \<le> failure_count cb'
         \<or> state cb' = CLOSED \<and> failure_count cb' = failure_count cb + 1
           \<and> failure_count cb' < failure_threshold cb"
proof -
  obtain e w1 where op: "operation w = (Raised e, w1)" and ex: "expected_exception cb e"
    using raises_expectedD [OF fails] by blast
  show "expected_exception cb' = expected_exception cb"
    using op ex unfolding cb'_def
    by (auto simp: async_with_def aenter_def aexit_def Let_def split: option.splits)
  show "failure_threshold cb' = failure_threshold cb"
    using op ex unfolding cb'_def
    by (auto simp: async_with_def aenter_def aexit_def Let_def split: option.splits)
  show "state cb' = OPEN \<and> failure_threshold cb \<le> failure_count cb'
           \<and> failure_count cb \<le> failure_count cb'
         \<or> state cb' = CLOSED \<and> failure_count cb' = failure_count cb + 1
           \<and> failure_count cb' < failure_threshold cb"
    using op ex inv unfolding cb'_def
    by (cases "state cb") (auto simp: async_with_def aenter_def aexit_def Let_def split: option.splits)
qed

lemma failing_calls_open:
  assumes "\<forall>c\<in>set cs. raises_expected (expected_exception cb) (snd (snd c))"
    and "state cb \<noteq> CLOSED \<longrightarrow> failure_threshold cb \<le> failure_count cb"
    and "failure_threshold cb \<le> failure_count cb + int (length cs)"
    and "cs \<noteq> []"
  shows "state (fst (guarded_calls cs (cb, w))) = OPEN"
  using assms
proof (induction cs arbitrary: cb w)
  case Nil
  then show ?case by simp
next
  case (Cons c cs)
  obtain t_enter t_exit operation where c: "c = (t_enter, t_exit, operation)"
    by (cases c) auto
  define r where "r = async_with t_enter t_exit operation (cb, w)"
  define cb' where "cb' = fst (snd r)"
  define w' where "w' = snd (snd r)"
  have fails: "raises_expected (expected_exception cb) operation"
    using Cons.prems(1) c by simp
  note step = failing_call_step [OF fails Cons.prems(2), of t_enter t_exit w, folded r_def cb'_def]
  have run: "guarded_calls (c # cs) (cb, w) = guarded_calls cs (cb', w')"
    by (simp add: c r_def cb'_def w'_def)
  show ?case
  proof (cases "cs = []")
    case True
    then show ?thesis
      using step(3) Cons.prems(3) run by auto
  next
    case False
    have "state (fst (guarded_calls cs (cb', w'))) = OPEN"
    proof (rule Cons.IH [OF _ _ _ False])
      show "\<forall>c\<in>set cs. raises_expected (expected_exception cb') (snd (snd c))"
        using Cons.prems(1) step(1) by simp
      show "state cb' \<noteq> CLOSED \<longrightarrow> failure_threshold cb' \<le> failure_count cb'"
        using step(2,3) by auto
      show "failure_threshold cb' \<le> failure_count cb' + int (length cs)"
        using step(2,3) Cons.prems(3) by auto
    qed
    then show ?thesis using run by simp
  qed
qed

lemma open_rejects:
  "state cb = OPEN \<Longrightarrow> last_failure_time cb = Some t \<Longrightarrow> now - t < real_of_int (timeout cb) \<Longrightarrow>
     async_with now t_exit operation (cb, w) = (Rejected circuit_open, cb, w)"
  by (simp add: async_with_def aenter_def)

lemma open_probe:
  assumes "reachable cb" "state cb = OPEN" "last_failure_time cb = Some t"
    "real_of_int (timeout cb) \<le> now - t"
  shows "aenter now cb = Inr (cb\<lparr>state := HALF_OPEN\<rparr>)"
    and "snd (snd (async_with now t_exit operation (cb, w))) = snd (operation w)"
    and "\<forall>h. fst (async_with now t_exit operation (cb, w)) \<noteq> Rejected h"
proof -
  have "t \<noteq> 0" using reachable_invariant [OF assms(1)] assms(2,3) by auto
  then show enter: "aenter now cb = Inr (cb\<lparr>state := HALF_OPEN\<rparr>)"
    using assms by (simp add: aenter_def)
  show "snd (snd (async_with now t_exit operation (cb, w))) = snd (operation w)"
    using enter by (auto simp: async_with_def split: prod.splits outcome.splits)
  show "\<forall>h. fst (async_with now t_exit operation (cb, w)) \<noteq> Rejected h"
    using enter by (auto simp: async_with_def split: prod.splits outcome.splits)
qed

lemma half_open_success:
  "state cb = HALF_OPEN \<Longrightarrow> snd (aexit now None cb) = cb\<lparr>failure_count := 0, state := CLOSED\<rparr>"
  by (simp add: aexit_def)

lemma half_open_failure:
  "reachable cb \<Longrightarrow> state cb = HALF_OPEN \<Longrightarrow> expected_exception cb e \<Longrightarrow>
     state (snd (aexit now (Some e) cb)) = OPEN"
  using reachable_invariant [of cb] by (simp add: aexit_def Let_def)

text \<open>
  Claim C2, as the code has it. A success on a CLOSED breaker leaves the breaker exactly
  as it was: it stays CLOSED and \<open>failure_count\<close> keeps its value. \<open>__aexit__\<close> resets the
  count only under \<open>if self.state == "HALF_OPEN"\<close>: on a breaker that the methods produce
  from a fresh instance, an exit that takes a count other than 0 to 0 is a success while
  HALF_OPEN, and every success while HALF_OPEN sets the count to 0. So an expected
  exception that follows a success on a CLOSED breaker counts on top of the failures
  recorded before the success.
\<close>

theorem closed_success_leaves_breaker:
  "(state cb = CLOSED \<longrightarrow> aexit now None cb = (False, cb))
   \<and> (reachable cb \<and> failure_count cb \<noteq> 0 \<and> failure_count (snd (aexit now exc cb)) = 0 \<longrightarrow>
        exc = None \<and> state cb = HALF_OPEN)
   \<and> (state cb = HALF_OPEN \<longrightarrow> failure_count (snd (aexit now None cb)) = 0)
   \<and> (state cb = CLOSED \<and> expected_exception cb e \<longrightarrow>
        failure_count (snd (aexit later (Some e) (snd (aexit now None cb))))
          = failure_count cb + 1)"
proof (intro conjI impI)
  assume "state cb = CLOSED"
  then show "aexit now None cb = (False, cb)"
    by (simp add: aexit_def)
next
  assume a: "reachable cb \<and> failure_count cb \<noteq> 0
      \<and> failure_count (snd (aexit now exc cb)) = 0"
  then have nonneg: "0 \<le> failure_count cb"
    using reachable_invariant [of cb] by simp
  show "exc = None"
  proof (cases exc)
    case None
    then show ?thesis .
  next
    case (Some e)
    with a nonneg show ?thesis
      by (cases "expected_exception cb e") (auto simp: aexit_def Let_def split: if_splits)
  qed
  show "state cb = HALF_OPEN"
  proof (cases exc)
    case None
    with a show ?thesis
      by (auto simp: aexit_def split: if_splits)
  next
    case (Some e)
    with a nonneg show ?thesis
      by (cases "expected_exception cb e") (auto simp: aexit_def Let_def split: if_splits)
  qed
next
  assume "state cb = HALF_OPEN"
  then show "failure_count (snd (aexit now None cb)) = 0"
    by (simp add: aexit_def)
next
  assume "state cb = CLOSED \<and> expected_exception cb e"
  then show "failure_count (snd (aexit later (Some e) (snd (aexit now None cb))))
      = failure_count cb + 1"
    by (simp add: aexit_def Let_def)
qed

theorem closed_success_leaves_breaker_witness:
  "aexit 3 None
      \<lparr>failure_threshold = 2, timeout = 60, expected_exception = (Exception :: unit \<Rightarrow> bool),
       failure_count = 1, last_failure_time = Some 2, state = CLOSED\<rparr>
     = (False,
        \<lparr>failure_threshold = 2, timeout = 60, expected_exception = Exception,
         failure_count = 1, last_failure_time = Some 2, state = CLOSED\<rparr>)
   \<and> failure_count (snd (aexit 4 (Some ()) (snd (aexit 3 None
        \<lparr>failure_threshold = 2, timeout = 60, expected_exception = (Exception :: unit \<Rightarrow> bool),
         failure_count = 1, last_failure_time = Some 2, state = CLOSED\<rparr>)))) = 2
   \<and> reachable
        \<lparr>failure_threshold = 2, timeout = 60, expected_exception = (Exception :: unit \<Rightarrow> bool),
         failure_count = 2, last_failure_time = Some 4, state = HALF_OPEN\<rparr>
   \<and> failure_count (snd (aexit 101 None
        \<lparr>failure_threshold = 2, timeout = 60, expected_exception = (Exception :: unit \<Rightarrow> bool),
         failure_count = 2, last_failure_time = Some 4, state = HALF_OPEN\<rparr>)) = 0"
proof -
  define i :: "unit circuit_breaker" where "i = init 2 60 Exception"
  define c1 :: "unit circuit_breaker" where
    "c1 = \<lparr>failure_threshold = 2, timeout = 60, expected_exception = Exception,
           failure_count = 1, last_failure_time = Some 2, state = CLOSED\<rparr>"
  define c2 :: "unit circuit_breaker" where
    "c2 = \<lparr>failure_threshold = 2, timeout = 60, expected_exception = Exception,
           failure_count = 2, last_failure_time = Some 4, state = OPEN\<rparr>"
  define c3 :: "unit circuit_breaker" where
    "c3 = \<lparr>failure_threshold = 2, timeout = 60, expected_exception = Exception,
           failure_count = 2, last_failure_time = Some 4, state = HALF_OPEN\<rparr>"
  have ri: "reachable i" unfolding i_def by (rule reachable_init)
  have "aexit 2 (Some ()) i = (False, c1)"
    by (simp add: aexit_def i_def c1_def init_def Let_def Exception_def)
  then have r1: "reachable c1" using ri reachable_aexit [of i 2] by fastforce
  have "aexit 4 (Some ()) c1 = (False, c2)"
    by (simp add: aexit_def c1_def c2_def Let_def Exception_def)
  then have r2: "reachable c2" using r1 reachable_aexit [of c1 4] by fastforce
  have "aenter 100 c2 = Inr c3"
    by (simp add: aenter_def c2_def c3_def)
  then have r3: "reachable c3" using r2 reachable_aenter [of c2 100] by fastforce
  have h1: "state c1 = CLOSED"
    by (simp add: c1_def)
  have h4: "state c1 = CLOSED \<and> expected_exception c1 ()"
    by (simp add: c1_def Exception_def)
  have h3: "state c3 = HALF_OPEN"
    by (simp add: c3_def)
  note at_closed = closed_success_leaves_breaker [where cb = c1 and now = 3 and later = 4
      and e = "()" and exc = None]
  note at_half_open = closed_success_leaves_breaker [where cb = c3 and now = 101
      and later = 102 and e = "()" and exc = None]
  have a: "aexit 3 None c1 = (False, c1)"
    using at_closed h1 by blast
  have b: "failure_count (snd (aexit 4 (Some ()) (snd (aexit 3 None c1)))) = failure_count c1 + 1"
    using at_closed h4 by blast
  have c: "failure_count (snd (aexit 101 None c3)) = 0"
    using at_half_open h3 by blast
  have h2: "reachable c3 \<and> failure_count c3 \<noteq> 0 \<and> failure_count (snd (aexit 101 None c3)) = 0"
    using r3 c by (simp add: c3_def)
  have d: "(None :: unit option) = None \<and> state c3 = HALF_OPEN"
    using at_half_open h2 by blast
  have "failure_count c1 + 1 = 2"
    by (simp add: c1_def)
  with a b c d r3 show ?thesis
    unfolding c1_def c3_def by simp
qed

text \<open>
  Claim C2 as stated fails: with threshold 2, after one failure the breaker is CLOSED;
  a success then leaves \<open>failure_count\<close> at 1, and one more failure opens the breaker,
  although the two failures were separated by a success.
\<close>

theorem closed_success_reset_counterexample:
  "state (fst (guarded_calls
       [(1, 2, raising () :: (unit, unit, unit) operation)]
       (init 2 60 Exception, ()))) = CLOSED
   \<and> failure_count (fst (guarded_calls
       [(1, 2, raising () :: (unit, unit, unit) operation), (3, 4, returning ())]
       (init 2 60 Exception, ()))) = 1
   \<and> state (fst (guarded_calls
       [(1, 2, raising () :: (unit, unit, unit) operation), (3, 4, returning ()),
        (5, 6, raising ())]
       (init 2 60 Exception, ()))) = OPEN"
  by (simp add: async_with_def aenter_def aexit_def init_def Exception_def raising_def
      returning_def Let_def)

text \<open>
  Claim C3: the state machine. For breakers that the methods produce from a fresh
  instance (clock readings positive):
  \<^item> from a CLOSED breaker with a positive threshold, \<open>failure_threshold\<close> guarded calls
    in a row that raise an expected exception leave the breaker OPEN;
  \<^item> an entry while OPEN, before \<open>timeout\<close> seconds have passed since
    \<open>last_failure_time\<close>, is rejected with the 503 exception; the breaker and the world
    are untouched, whatever the operation is;
  \<^item> an entry while OPEN once \<open>timeout\<close> seconds have passed sets HALF_OPEN, and the
    operation runs;
  \<^item> a success while HALF_OPEN sets CLOSED and \<open>failure_count = 0\<close>;
  \<^item> an expected exception while HALF_OPEN sets OPEN.
\<close>

theorem circuit_breaker_state_machine:
  fixes c_closed c_open c_half :: "'e circuit_breaker"
    and operation :: "('w, 'e, 'a) operation"
    and cs :: "(real \<times> real \<times> ('w, 'e, 'a) operation) list"
  shows
  "(reachable c_closed \<and> state c_closed = CLOSED \<and> 0 < failure_threshold c_closed
      \<and> length cs = nat (failure_threshold c_closed)
      \<and> (\<forall>c\<in>set cs. raises_expected (expected_exception c_closed) (snd (snd c)))
     \<longrightarrow> state (fst (guarded_calls cs (c_closed, w))) = OPEN)
   \<and> (state c_open = OPEN \<and> last_failure_time c_open = Some t
        \<and> early - t < real_of_int (timeout c_open)
     \<longrightarrow> async_with early t_exit operation (c_open, w) = (Rejected circuit_open, c_open, w))
   \<and> (reachable c_open \<and> state c_open = OPEN \<and> last_failure_time c_open = Some t
        \<and> real_of_int (timeout c_open) \<le> late - t
     \<longrightarrow> aenter late c_open = Inr (c_open\<lparr>state := HALF_OPEN\<rparr>)
         \<and> snd (snd (async_with late t_exit operation (c_open, w))) = snd (operation w)
         \<and> (\<forall>h. fst (async_with late t_exit operation (c_open, w)) \<noteq> Rejected h))
   \<and> (state c_half = HALF_OPEN
     \<longrightarrow> snd (aexit now None c_half) = c_half\<lparr>failure_count := 0, state := CLOSED\<rparr>)
   \<and> (reachable c_half \<and> state c_half = HALF_OPEN \<and> expected_exception c_half e
     \<longrightarrow> state (snd (aexit now (Some e) c_half)) = OPEN)"
proof (intro conjI impI)
  assume a: "reachable c_closed \<and> state c_closed = CLOSED \<and> 0 < failure_threshold c_closed
      \<and> length cs = nat (failure_threshold c_closed)
      \<and> (\<forall>c\<in>set cs. raises_expected (expected_exception c_closed) (snd (snd c)))"
  then have "0 \<le> failure_count c_closed"
    using reachable_invariant [of c_closed] by simp
  with a have "failure_threshold c_closed \<le> failure_count c_closed + int (length cs)"
    and "cs \<noteq> []" by auto
  with a show "state (fst (guarded_calls cs (c_closed, w))) = OPEN"
    by (intro failing_calls_open) auto
next
  assume "state c_open = OPEN \<and> last_failure_time c_open = Some t
        \<and> early - t < real_of_int (timeout c_open)"
  then show "async_with early t_exit operation (c_open, w) = (Rejected circuit_open, c_open, w)"
    by (simp add: open_rejects)
next
  assume a: "reachable c_open \<and> state c_open = OPEN \<and> last_failure_time c_open = Some t
        \<and> real_of_int (timeout c_open) \<le> late - t"
  then show "aenter late c_open = Inr (c_open\<lparr>state := HALF_OPEN\<rparr>)"
    by (intro open_probe(1) [of _ t]) auto
  from a show "snd (snd (async_with late t_exit operation (c_open, w))) = snd (operation w)"
    by (intro open_probe(2) [of _ t]) auto
  from a show "\<forall>h. fst (async_with late t_exit operation (c_open, w)) \<noteq> Rejected h"
    by (intro open_probe(3) [of _ t]) auto
next
  assume "state c_half = HALF_OPEN"
  then show "snd (aexit now None c_half) = c_half\<lparr>failure_count := 0, state := CLOSED\<rparr>"
    by (rule half_open_success)
next
  assume "reachable c_half \<and> state c_half = HALF_OPEN \<and> expected_exception c_half e"
  then show "state (snd (aexit now (Some e) c_half)) = OPEN"
    by (simp add: half_open_failure)
qed

theorem circuit_breaker_state_machine_witness:
  "state (fst (guarded_calls
       [(1, 2, raising () :: (unit, unit, unit) operation), (3, 4, raising ())]
       (init 2 60 Exception, ()))) = OPEN
   \<and> async_with 10 11 (returning ())
        (\<lparr>failure_threshold = 2, timeout = 60, expected_exception = (Exception :: unit \<Rightarrow> bool),
          failure_count = 2, last_failure_time = Some 4, state = OPEN\<rparr>, ())
      = (Rejected circuit_open,
         \<lparr>failure_threshold = 2, timeout = 60, expected_exception = Exception,
          failure_count = 2, last_failure_time = Some 4, state = OPEN\<rparr>, ())
   \<and> aenter 100
        \<lparr>failure_threshold = 2, timeout = 60, expected_exception = (Exception :: unit \<Rightarrow> bool),
         failure_count = 2, last_failure_time = Some 4, state = OPEN\<rparr>
      = Inr \<lparr>failure_threshold = 2, timeout = 60, expected_exception = Exception,
             failure_count = 2, last_failure_time = Some 4, state = HALF_OPEN\<rparr>
   \<and> snd (aexit 101 None
        \<lparr>failure_threshold = 2, timeout = 60, expected_exception = (Exception :: unit \<Rightarrow> bool),
         failure_count = 2, last_failure_time = Some 4, state = HALF_OPEN\<rparr>)
      = \<lparr>failure_threshold = 2, timeout = 60, expected_exception = Exception,
         failure_count = 0, last_failure_time = Some 4, state = CLOSED\<rparr>
   \<and> state (snd (aexit 101 (Some ())
        \<lparr>failure_threshold = 2, timeout = 60, expected_exception = (Exception :: unit \<Rightarrow> bool),
         failure_count = 2, last_failure_time = Some 4, state = HALF_OPEN\<rparr>)) = OPEN"
proof -
  define i :: "unit circuit_breaker" where "i = init 2 60 Exception"
  define c1 :: "unit circuit_breaker" where
    "c1 = \<lparr>failure_threshold = 2, timeout = 60, expected_exception = Exception,
           failure_count = 1, last_failure_time = Some 2, state = CLOSED\<rparr>"
  define c2 :: "unit circuit_breaker" where
    "c2 = \<lparr>failure_threshold = 2, timeout = 60, expected_exception = Exception,
           failure_count = 2, last_failure_time = Some 4, state = OPEN\<rparr>"
  define c3 :: "unit circuit_breaker" where
    "c3 = \<lparr>failure_threshold = 2, timeout = 60, expected_exception = Exception,
           failure_count = 2, last_failure_time = Some 4, state = HALF_OPEN\<rparr>"
  define cs :: "(real \<times> real \<times> (unit, unit, unit) operation) list" where
    "cs = [(1, 2, raising ()), (3, 4, raising ())]"
  have ri: "reachable i" unfolding i_def by (rule reachable_init)
  have "aexit 2 (Some ()) i = (False, c1)"
    by (simp add: aexit_def i_def c1_def init_def Let_def Exception_def)
  then have r1: "reachable c1" using ri reachable_aexit [of i 2] by fastforce
  have "aexit 4 (Some ()) c1 = (False, c2)"
    by (simp add: aexit_def c1_def c2_def Let_def Exception_def)
  then have r2: "reachable c2" using r1 reachable_aexit [of c1 4] by fastforce
  have "aenter 100 c2 = Inr c3"
    by (simp add: aenter_def c2_def c3_def)
  then have r3: "reachable c3" using r2 reachable_aenter [of c2 100] by fastforce
  have h1: "reachable i \<and> state i = CLOSED \<and> 0 < failure_threshold i
      \<and> length cs = nat (failure_threshold i)
      \<and> (\<forall>c\<in>set cs. raises_expected (expected_exception i) (snd (snd c)))"
    using ri by (simp add: i_def init_def cs_def Exception_def)
  have h2: "state c2 = OPEN \<and> last_failure_time c2 = Some 4 \<and> 10 - 4 < real_of_int (timeout c2)"
    by (simp add: c2_def)
  have h3: "reachable c2 \<and> state c2 = OPEN \<and> last_failure_time c2 = Some 4
      \<and> real_of_int (timeout c2) \<le> 100 - 4"
    using r2 by (simp add: c2_def)
  have h4: "state c3 = HALF_OPEN" by (simp add: c3_def)
  have h5: "reachable c3 \<and> state c3 = HALF_OPEN \<and> expected_exception c3 ()"
    using r3 by (simp add: c3_def Exception_def)
  note m = circuit_breaker_state_machine
    [where c_closed = i and cs = cs and w = "()" and c_open = c2 and t = 4 and early = 10
       and late = 100 and t_exit = 11 and operation = "returning ()"
       and c_half = c3 and now = 101 and e = "()"]
  from m h1 have "state (fst (guarded_calls cs (i, ()))) = OPEN" by blast
  moreover from m h2
  have "async_with 10 11 (returning ()) (c2, ()) = (Rejected circuit_open, c2, ())"
    by blast
  moreover from m h3 have "aenter 100 c2 = Inr (c2\<lparr>state := HALF_OPEN\<rparr>)" by blast
  then have "aenter 100 c2 = Inr c3" by (simp add: c2_def c3_def)
  moreover from m h4 have "snd (aexit 101 None c3) = c3\<lparr>failure_count := 0, state := CLOSED\<rparr>"
    by blast
  then have "snd (aexit 101 None c3)
      = \<lparr>failure_threshold = 2, timeout = 60, expected_exception = Exception,
         failure_count = 0, last_failure_time = Some 4, state = CLOSED\<rparr>"
    by (simp add: c3_def)
  moreover from m h5 have "state (snd (aexit 101 (Some ()) c3)) = OPEN" by blast
  ultimately show ?thesis
    unfolding i_def cs_def c2_def c3_def by blast
qed

text \<open>
  Claim C10: \<open>__aexit__\<close> returns \<open>False\<close> for every outcome, expected or not, so the
  \<open>async with\<close> statement re-raises the exception that the guarded operation raised.
\<close>

theorem exception_propagates:
  "aenter t_enter cb = Inr cb1 \<Longrightarrow> operation w = (Raised e, w1) \<Longrightarrow>
     fst (aexit t_exit (Some e) cb1) = False
     \<and> fst (async_with t_enter t_exit operation (cb, w)) = Propagated e"
  by (simp add: async_with_def aexit_def Let_def split: prod.splits)

theorem exception_propagates_witness:
  "fst (aexit 2 (Some (3::nat)) (init 5 60 (\<lambda>e. e = 0))) = False
   \<and> fst (async_with 1 2 (raising (3::nat) :: (unit, nat, unit) operation)
            (init 5 60 (\<lambda>e. e = 0), ())) = Propagated 3"
proof -
  have h1: "aenter 1 (init 5 60 (\<lambda>e::nat. e = 0)) = Inr (init 5 60 (\<lambda>e. e = 0))"
    by (simp add: aenter_def init_def)
  have h2: "(raising (3::nat) :: (unit, nat, unit) operation) () = (Raised 3, ())"
    by (simp add: raising_def)
  show ?thesis
    using exception_propagates
      [where operation = "raising 3" and w = "()" and t_exit = 2, OF h1 h2]
    by simp
qed


section \<open>Properties of the cache\<close>

text \<open>
  Claim C5, as the code has it. \<open>get_keys_by_pattern\<close> returns exactly the keys that are
  in the dictionary and begin with the prefix; it never reads the clock or an entry's
  expiry time, so an expired entry that is still in the dictionary is returned too.
\<close>

theorem get_keys_by_pattern_present:
  "key \<in> set (get_keys_by_pattern pattern c)
     \<longleftrightarrow> (\<exists>entry. (key, entry) \<in> set (cache c)) \<and> prefix pattern key"
  by (force simp: get_keys_by_pattern_def)

text \<open>
  Claim C5 as stated fails: at time 10 the entry under \<open>user:1\<close> expired at time 5 and is
  still in the dictionary; \<open>get_keys_by_pattern\<close> returns its key.
\<close>

theorem get_keys_by_pattern_expired_counterexample:
  "is_expired 10 \<lparr>entry_value = (0::nat), expires_at = 5, created_at = 0, hits = 0\<rparr>
   \<and> get_keys_by_pattern ''user:''
        \<lparr>cache = [(''user:1'', \<lparr>entry_value = (0::nat), expires_at = 5, created_at = 0, hits = 0\<rparr>)],
         default_ttl = 300,
         stats = \<lparr>stat_hits = 0, stat_misses = 0, stat_sets = 1, stat_deletes = 0, stat_evictions = 0\<rparr>\<rparr>
      = [''user:1'']"
  by (simp add: is_expired_def get_keys_by_pattern_def)

text \<open>
  Claim C7: \<open>get\<close> on an entry whose expiry has passed returns nothing, removes the key
  and adds one to the miss counter and one to the eviction counter; \<open>get\<close> on an entry
  that has not expired returns its value and adds one to the entry's hits and one to
  the hit counter.
\<close>

theorem get_expired_and_hit:
  "(map_of (cache c) key = Some entry \<and> is_expired now entry \<longrightarrow>
      fst (get now key c) = None
      \<and> map_of (cache (snd (get now key c))) = (map_of (cache c))(key := None)
      \<and> stat_misses (stats (snd (get now key c))) = stat_misses (stats c) + 1
      \<and> stat_evictions (stats (snd (get now key c))) = stat_evictions (stats c) + 1)
   \<and> (map_of (cache c) key = Some entry \<and> \<not> is_expired now entry \<longrightarrow>
      fst (get now key c) = Some (entry_value entry)
      \<and> map_of (cache (snd (get now key c)))
          = (map_of (cache c))(key \<mapsto> entry\<lparr>hits := hits entry + 1\<rparr>)
      \<and> stat_hits (stats (snd (get now key c))) = stat_hits (stats c) + 1)"
  by (simp add: get_def increment_hits_def delete_conv' update_conv')

theorem get_expired_and_hit_witness:
  "fst (get 10 ''k''
      \<lparr>cache = [(''k'', \<lparr>entry_value = (42::nat), expires_at = 5, created_at = 0, hits = 0\<rparr>)],
       default_ttl = 300,
       stats = \<lparr>stat_hits = 0, stat_misses = 0, stat_sets = 1, stat_deletes = 0,
                stat_evictions = 0\<rparr>\<rparr>) = None
   \<and> map_of (cache (snd (get 10 ''k''
      \<lparr>cache = [(''k'', \<lparr>entry_value = (42::nat), expires_at = 5, created_at = 0, hits = 0\<rparr>)],
       default_ttl = 300,
       stats = \<lparr>stat_hits = 0, stat_misses = 0, stat_sets = 1, stat_deletes = 0,
                stat_evictions = 0\<rparr>\<rparr>))) ''k'' = None
   \<and> stat_misses (stats (snd (get 10 ''k''
      \<lparr>cache = [(''k'', \<lparr>entry_value = (42::nat), expires_at = 5, created_at = 0, hits = 0\<rparr>)],
       default_ttl = 300,
       stats = \<lparr>stat_hits = 0, stat_misses = 0, stat_sets = 1, stat_deletes = 0,
                stat_evictions = 0\<rparr>\<rparr>))) = 1
   \<and> stat_evictions (stats (snd (get 10 ''k''
      \<lparr>cache = [(''k'', \<lparr>entry_value = (42::nat), expires_at = 5, created_at = 0, hits = 0\<rparr>)],
       default_ttl = 300,
       stats = \<lparr>stat_hits = 0, stat_misses = 0, stat_sets = 1, stat_deletes = 0,
                stat_evictions = 0\<rparr>\<rparr>))) = 1
   \<and> fst (get 3 ''k''
      \<lparr>cache = [(''k'', \<lparr>entry_value = (42::nat), expires_at = 5, created_at = 0, hits = 0\<rparr>)],
       default_ttl = 300,
       stats = \<lparr>stat_hits = 0, stat_misses = 0, stat_sets = 1, stat_deletes = 0,
                stat_evictions = 0\<rparr>\<rparr>) = Some 42
   \<and> map_of (cache (snd (get 3 ''k''
      \<lparr>cache = [(''k'', \<lparr>entry_value = (42::nat), expires_at = 5, created_at = 0, hits = 0\<rparr>)],
       default_ttl = 300,
       stats = \<lparr>stat_hits = 0, stat_misses = 0, stat_sets = 1, stat_deletes = 0,
                stat_evictions = 0\<rparr>\<rparr>))) ''k''
       = Some \<lparr>entry_value = 42, expires_at = 5, created_at = 0, hits = 1\<rparr>
   \<and> stat_hits (stats (snd (get 3 ''k''
      \<lparr>cache = [(''k'', \<lparr>entry_value = (42::nat), expires_at = 5, created_at = 0, hits = 0\<rparr>)],
       default_ttl = 300,
       stats = \<lparr>stat_hits = 0, stat_misses = 0, stat_sets = 1, stat_deletes = 0,
                stat_evictions = 0\<rparr>\<rparr>))) = 1"
proof -
  define e :: "nat cache_entry" where
    "e = \<lparr>entry_value = 42, expires_at = 5, created_at = 0, hits = 0\<rparr>"
  define c :: "nat cache_service" where
    "c = \<lparr>cache = [(''k'', e)], default_ttl = 300,
          stats = \<lparr>stat_hits = 0, stat_misses = 0, stat_sets = 1, stat_deletes = 0,
                   stat_evictions = 0\<rparr>\<rparr>"
  have h1: "map_of (cache c) ''k'' = Some e \<and> is_expired 10 e"
    by (simp add: c_def e_def is_expired_def)
  have h2: "map_of (cache c) ''k'' = Some e \<and> \<not> is_expired 3 e"
    by (simp add: c_def e_def is_expired_def)
  from get_expired_and_hit [of c "''k''" e 10] h1
  have a: "fst (get 10 ''k'' c) = None
      \<and> map_of (cache (snd (get 10 ''k'' c))) = (map_of (cache c))(''k'' := None)
      \<and> stat_misses (stats (snd (get 10 ''k'' c))) = stat_misses (stats c) + 1
      \<and> stat_evictions (stats (snd (get 10 ''k'' c))) = stat_evictions (stats c) + 1"
    by blast
  from get_expired_and_hit [of c "''k''" e 3] h2
  have b: "fst (get 3 ''k'' c) = Some (entry_value e)
      \<and> map_of (cache (snd (get 3 ''k'' c))) = (map_of (cache c))(''k'' \<mapsto> e\<lparr>hits := hits e + 1\<rparr>)
      \<and> stat_hits (stats (snd (get 3 ''k'' c))) = stat_hits (stats c) + 1"
    by blast
  have "stat_misses (stats c) = 0" "stat_evictions (stats c) = 0" "stat_hits (stats c) = 0"
    "entry_value e = 42" "e\<lparr>hits := hits e + 1\<rparr> = \<lparr>entry_value = 42, expires_at = 5, created_at = 0, hits = 1\<rparr>"
    by (simp_all add: c_def e_def)
  with a b show ?thesis
    unfolding c_def [symmetric] e_def [symmetric] by simp
qed

text \<open>
  Claim C9: \<open>exists\<close> answers true exactly when the key is in the dictionary with an
  entry that has not expired, and the service after the call is the service before it:
  same entries, same hit counters, same statistics.
\<close>

theorem exists_reads_only:
  "fst (exists now key c)
     = (\<exists>entry. map_of (cache c) key = Some entry \<and> \<not> is_expired now entry)
   \<and> snd (exists now key c) = c"
  by (simp add: exists_def split: option.splits)

section \<open>Properties of the metrics\<close>

lemma deque_append_drop:
  "0 < n \<Longrightarrow> length xs \<le> n \<Longrightarrow> deque_append n xs x = drop (length xs + 1 - n) (xs @ [x])"
  by (cases xs) (auto simp: deque_append_def)

lemma response_times_dispatch:
  "response_times (metrics_dispatch path result m)
     = (case result of Inl e \<Rightarrow> response_times m
        | Inr (duration, code) \<Rightarrow> deque_append response_times_maxlen (response_times m) duration)"
  by (simp add: metrics_dispatch_def Let_def split: sum.splits prod.splits)

lemma keep_last_step:
  fixes d :: 'a and xs ds :: "'a list"
  assumes n: "0 < n" and len: "length xs \<le> n"
  defines "ys \<equiv> drop (length xs + 1 - n) (xs @ [d])"
  shows "drop (length (ys @ ds) - n) (ys @ ds) = drop (length (xs @ d # ds) - n) (xs @ d # ds)"
proof (cases "length xs < n")
  case True
  then have "ys = xs @ [d]" by (simp add: ys_def)
  then show ?thesis by simp
next
  case False
  with len have full: "length xs = n" by simp
  with n obtain a xs' where xs: "xs = a # xs'" by (cases xs) auto
  have ys: "ys = xs' @ [d]" using full by (simp add: ys_def xs)
  have "length (ys @ ds) - n = length ds" using full by (simp add: ys xs)
  moreover have "length (xs @ d # ds) - n = Suc (length ds)" using full by (simp add: xs)
  ultimately show ?thesis by (simp add: ys xs)
qed

lemma response_times_run:
  "length (response_times m) \<le> response_times_maxlen \<Longrightarrow>
     response_times (metrics_run rs m)
       = drop (length (response_times m @ recorded_durations rs) - response_times_maxlen)
           (response_times m @ recorded_durations rs)"
proof (induction rs arbitrary: m rule: recorded_durations.induct)
  case 1
  then show ?case by simp
next
  case (2 path e rs)
  then show ?case by (simp add: response_times_dispatch)
next
  case (3 path duration code rs)
  define n where "n = response_times_maxlen"
  define xs where "xs = response_times m"
  define m' where "m' = metrics_dispatch path (Inr (duration, code) :: 'a + real \<times> int) m"
  have n: "0 < n" by (simp add: n_def response_times_maxlen_def)
  have len: "length xs \<le> n" using 3 by (simp add: xs_def n_def)
  have xs': "response_times m' = drop (length xs + 1 - n) (xs @ [duration])"
    unfolding m'_def response_times_dispatch
    using deque_append_drop [OF n len] by (simp add: n_def xs_def)
  then have "length (response_times m') \<le> response_times_maxlen"
    using len by (auto simp: n_def)
  from "3.IH" [OF this]
  have "response_times (metrics_run rs m')
     = drop (length (response_times m' @ recorded_durations rs) - n)
           (response_times m' @ recorded_durations rs)"
    by (simp add: n_def)
  also have "\<dots> = drop (length (xs @ duration # recorded_durations rs) - n)
           (xs @ duration # recorded_durations rs)"
    unfolding xs' by (rule keep_last_step [OF n len])
  finally show ?case
    by (simp add: m'_def xs_def n_def)
qed

text \<open>
  Claim C8: after any sequence of requests, the buffer of response times holds the last
  1000 recorded durations (all of them while there are at most 1000), and the reported
  average is the sum of the buffer divided by its length, or 0 when no duration has been
  recorded. Durations and the division are over the real numbers.
\<close>

theorem avg_response_time_is_buffer_mean:
  "response_times (metrics_run rs metrics_init)
     = drop (length (recorded_durations rs) - response_times_maxlen) (recorded_durations rs)
   \<and> length (response_times (metrics_run rs metrics_init)) \<le> response_times_maxlen
   \<and> response_times_maxlen = 1000
   \<and> snap_avg_response_time (get_metrics (metrics_run rs metrics_init))
       = (if recorded_durations rs = [] then 0
          else sum_list (response_times (metrics_run rs metrics_init))
                 / real (length (response_times (metrics_run rs metrics_init))))"
proof -
  have buf: "response_times (metrics_run rs metrics_init)
     = drop (length (recorded_durations rs) - response_times_maxlen) (recorded_durations rs)"
    using response_times_run [of metrics_init rs] by (simp add: metrics_init_def)
  have pos: "0 < response_times_maxlen" by (simp add: response_times_maxlen_def)
  have empty: "response_times (metrics_run rs metrics_init) = [] \<longleftrightarrow> recorded_durations rs = []"
    unfolding buf using pos by (cases "recorded_durations rs") auto
  show ?thesis
    using empty by (auto simp: buf get_metrics_def Let_def response_times_maxlen_def)
qed


section \<open>Properties of the rate limiter\<close>

lemma purge_head: "purge cutoff ts = t # rest \<Longrightarrow> \<not> t < cutoff"
  by (induction ts) (auto split: if_splits)

lemma py_int_nonneg: "0 \<le> x \<Longrightarrow> py_int x = \<lfloor>x\<rfloor>"
  by (simp add: py_int_def)

lemma floor_plus_one: "\<lfloor>x::real\<rfloor> + 1 = (if x \<in> \<int> then \<lceil>x\<rceil> + 1 else \<lceil>x\<rceil>)"
proof (cases "x \<in> \<int>")
  case True
  then obtain k where "x = of_int k" by (auto elim: Ints_cases)
  then show ?thesis by simp
next
  case False
  have "x \<noteq> of_int \<lfloor>x\<rfloor>"
  proof
    assume "x = of_int \<lfloor>x\<rfloor>"
    then have "x \<in> \<int>" by (metis Ints_of_int)
    with False show False by simp
  qed
  with False show ?thesis by (simp add: ceiling_altdef)
qed

lemma dispatch_rejected:
  assumes "RATE_LIMIT_ENABLED st"
    and "get_limit_for_endpoint st (url_path req) = (max_requests, window_seconds)"
    and "purge (now - real_of_int window_seconds) (window_of client_requests (client_ip_of req))
           = oldest # rest"
    and "max_requests \<le> int (length (oldest # rest))"
  shows "rate_limit_dispatch st call_next now req client_requests =
     (Inr (JSONResponse HTTP_429_TOO_MANY_REQUESTS
            [(''error'', JStr ''rate_limit_exceeded''),
             (''message'', JStr (''Too many requests. Max '' @ str max_requests
                @ '' requests per '' @ str window_seconds @ '' seconds'')),
             (''retry_after_seconds'',
                JInt (py_int (oldest + real_of_int window_seconds - now) + 1))]
            [(''Retry-After'', str (py_int (oldest + real_of_int window_seconds - now) + 1))]),
      client_requests(client_ip_of req \<mapsto> oldest # rest))"
  using assms by (simp add: rate_limit_dispatch_def window_of_def Let_def)

lemma dispatch_admitted:
  assumes "RATE_LIMIT_ENABLED st"
    and "get_limit_for_endpoint st (url_path req) = (max_requests, window_seconds)"
    and "purge (now - real_of_int window_seconds) (window_of client_requests (client_ip_of req)) = q"
    and "int (length q) < max_requests"
    and "call_next req (client_requests(client_ip_of req \<mapsto> q @ [now])) = (response, after)"
  shows "rate_limit_dispatch st call_next now req client_requests =
     (Inr (response\<lparr>headers := (headers response)
              (''X-RateLimit-Limit'' \<mapsto> str max_requests,
               ''X-RateLimit-Remaining'' \<mapsto>
                  str (max 0 (max_requests - int (length (window_of after (client_ip_of req))))),
               ''X-RateLimit-Reset'' \<mapsto> str (py_int (now + real_of_int window_seconds)))\<rparr>),
      after)"
  using assms by (simp add: rate_limit_dispatch_def window_of_def Let_def)

lemma dispatch_disabled:
  "\<not> RATE_LIMIT_ENABLED st \<Longrightarrow>
     rate_limit_dispatch st call_next now req client_requests
       = (Inr (fst (call_next req client_requests)), snd (call_next req client_requests))"
  by (simp add: rate_limit_dispatch_def split: prod.splits)

lemma str_examples:
  "str 5 = ''5''" "str 2 = ''2''" "str 1301 = ''1301''" "str 296 = ''296''"
  by (simp_all add: str_def str_nat.simps digit_char_def char_of_def bit_Suc_0_iff)

text \<open>
  Claim C1: the code does not keep a window per endpoint class. \<open>client_requests\<close> has
  one deque per client IP, which requests of every class purge (each with its own
  window length) and append to. With the default settings, the documented "Auth
  endpoints: 5 requests per 300 seconds" is broken in both directions:
  \<^item> a client with auth requests at 1000, 1001, 1002 and 1003 is admitted on an auth
    path at 1005; after one request on a general path at 1004 the window holds five
    timestamps and the same auth request is rejected with status 429;
  \<^item> a client with auth requests at 1000 to 1004 is rejected on an auth path at 1101;
    after one request on a general path at 1100, which purges with the 60 second
    window and leaves only its own timestamp, the same auth request, the sixth within
    300 seconds, is admitted.
\<close>

theorem shared_window_defect:
  "status_of (fst (rate_limit_dispatch default_settings ok_handler 1005
       \<lparr>client_host = Some ''1.2.3.4'', url_path = ''/api/v1/security/login''\<rparr>
       [''1.2.3.4'' \<mapsto> [1000, 1001, 1002, 1003]])) = Some 200
   \<and> window_of (snd (rate_limit_dispatch default_settings ok_handler 1004
       \<lparr>client_host = Some ''1.2.3.4'', url_path = ''/api/v1/users''\<rparr>
       [''1.2.3.4'' \<mapsto> [1000, 1001, 1002, 1003]])) ''1.2.3.4''
      = [1000, 1001, 1002, 1003, 1004]
   \<and> status_of (fst (rate_limit_dispatch default_settings ok_handler 1005
       \<lparr>client_host = Some ''1.2.3.4'', url_path = ''/api/v1/security/login''\<rparr>
       (snd (rate_limit_dispatch default_settings ok_handler 1004
          \<lparr>client_host = Some ''1.2.3.4'', url_path = ''/api/v1/users''\<rparr>
          [''1.2.3.4'' \<mapsto> [1000, 1001, 1002, 1003]])))) = Some 429
   \<and> status_of (fst (rate_limit_dispatch default_settings ok_handler 1101
       \<lparr>client_host = Some ''1.2.3.4'', url_path = ''/api/v1/security/login''\<rparr>
       [''1.2.3.4'' \<mapsto> [1000, 1001, 1002, 1003, 1004]])) = Some 429
   \<and> window_of (snd (rate_limit_dispatch default_settings ok_handler 1100
       \<lparr>client_host = Some ''1.2.3.4'', url_path = ''/api/v1/users''\<rparr>
       [''1.2.3.4'' \<mapsto> [1000, 1001, 1002, 1003, 1004]])) ''1.2.3.4'' = [1100]
   \<and> status_of (fst (rate_limit_dispatch default_settings ok_handler 1101
       \<lparr>client_host = Some ''1.2.3.4'', url_path = ''/api/v1/security/login''\<rparr>
       (snd (rate_limit_dispatch default_settings ok_handler 1100
          \<lparr>client_host = Some ''1.2.3.4'', url_path = ''/api/v1/users''\<rparr>
          [''1.2.3.4'' \<mapsto> [1000, 1001, 1002, 1003, 1004]])))) = Some 200"
  by (simp add: rate_limit_dispatch_def default_settings_def get_limit_for_endpoint_def
      client_ip_of_def window_of_def status_of_def ok_handler_def JSONResponse_def
      HTTP_429_TOO_MANY_REQUESTS_def Let_def)

text \<open>
  Claim C4, as the code has it. With rate limiting enabled, the response of an admitted
  request carries the limit, the remaining count and the reset time; the remaining
  count is \<open>max(0, max_requests - len(window))\<close> for the client's window as it is when
  the headers are written, that is after the rest of the pipeline has returned, having
  started from the purged window with the request's own timestamp appended. The
  response of a rejected request has status 429, the \<open>Retry-After\<close> header and the
  \<open>retry_after_seconds\<close> field, and none of the three \<open>X-RateLimit\<close> headers. With
  rate limiting disabled the response of the rest of the pipeline is returned as it is.
\<close>

theorem rate_limit_headers:
  "(RATE_LIMIT_ENABLED st
      \<and> get_limit_for_endpoint st (url_path req) = (max_requests, window_seconds)
      \<and> int (length (purge (now - real_of_int window_seconds)
                        (window_of client_requests (client_ip_of req)))) < max_requests \<longrightarrow>
      header_of (fst (rate_limit_dispatch st call_next now req client_requests))
          ''X-RateLimit-Limit'' = Some (str max_requests)
      \<and> header_of (fst (rate_limit_dispatch st call_next now req client_requests))
          ''X-RateLimit-Remaining''
        = Some (str (max 0 (max_requests
            - int (length (window_of (snd (rate_limit_dispatch st call_next now req client_requests))
                             (client_ip_of req))))))
      \<and> header_of (fst (rate_limit_dispatch st call_next now req client_requests))
          ''X-RateLimit-Reset'' = Some (str (py_int (now + real_of_int window_seconds)))
      \<and> snd (rate_limit_dispatch st call_next now req client_requests)
        = snd (call_next req (client_requests(client_ip_of req \<mapsto>
                 purge (now - real_of_int window_seconds)
                   (window_of client_requests (client_ip_of req)) @ [now]))))
   \<and> (RATE_LIMIT_ENABLED st
      \<and> get_limit_for_endpoint st (url_path req) = (max_requests, window_seconds)
      \<and> purge (now - real_of_int window_seconds)
           (window_of client_requests (client_ip_of req)) = oldest # rest
      \<and> max_requests \<le> int (length (oldest # rest)) \<longrightarrow>
      status_of (fst (rate_limit_dispatch st call_next now req client_requests)) = Some 429
      \<and> header_of (fst (rate_limit_dispatch st call_next now req client_requests))
          ''Retry-After''
        = Some (str (py_int (oldest + real_of_int window_seconds - now) + 1))
      \<and> retry_after_of (fst (rate_limit_dispatch st call_next now req client_requests))
        = Some (JInt (py_int (oldest + real_of_int window_seconds - now) + 1))
      \<and> header_of (fst (rate_limit_dispatch st call_next now req client_requests))
          ''X-RateLimit-Limit'' = None
      \<and> header_of (fst (rate_limit_dispatch st call_next now req client_requests))
          ''X-RateLimit-Remaining'' = None
      \<and> header_of (fst (rate_limit_dispatch st call_next now req client_requests))
          ''X-RateLimit-Reset'' = None)
   \<and> (\<not> RATE_LIMIT_ENABLED st \<longrightarrow>
      rate_limit_dispatch st call_next now req client_requests
        = (Inr (fst (call_next req client_requests)), snd (call_next req client_requests)))"
proof (intro conjI impI)
  assume a: "RATE_LIMIT_ENABLED st
      \<and> get_limit_for_endpoint st (url_path req) = (max_requests, window_seconds)
      \<and> int (length (purge (now - real_of_int window_seconds)
                        (window_of client_requests (client_ip_of req)))) < max_requests"
  define q where "q = purge (now - real_of_int window_seconds)
                        (window_of client_requests (client_ip_of req))"
  obtain response after
    where c: "call_next req (client_requests(client_ip_of req \<mapsto> q @ [now])) = (response, after)"
    by (cases "call_next req (client_requests(client_ip_of req \<mapsto> q @ [now]))") auto
  from a have d: "rate_limit_dispatch st call_next now req client_requests =
     (Inr (response\<lparr>headers := (headers response)
              (''X-RateLimit-Limit'' \<mapsto> str max_requests,
               ''X-RateLimit-Remaining'' \<mapsto>
                  str (max 0 (max_requests - int (length (window_of after (client_ip_of req))))),
               ''X-RateLimit-Reset'' \<mapsto> str (py_int (now + real_of_int window_seconds)))\<rparr>),
      after)"
    using dispatch_admitted [where st = st and req = req and max_requests = max_requests
        and window_seconds = window_seconds and now = now and client_requests = client_requests
        and q = q and call_next = call_next and response = response and after = after] c
    by (simp add: q_def)
  show "header_of (fst (rate_limit_dispatch st call_next now req client_requests))
          ''X-RateLimit-Limit'' = Some (str max_requests)"
    by (simp add: d header_of_def)
  show "header_of (fst (rate_limit_dispatch st call_next now req client_requests))
          ''X-RateLimit-Remaining''
        = Some (str (max 0 (max_requests
            - int (length (window_of (snd (rate_limit_dispatch st call_next now req client_requests))
                             (client_ip_of req))))))"
    by (simp add: d header_of_def)
  show "header_of (fst (rate_limit_dispatch st call_next now req client_requests))
          ''X-RateLimit-Reset'' = Some (str (py_int (now + real_of_int window_seconds)))"
    by (simp add: d header_of_def)
  show "snd (rate_limit_dispatch st call_next now req client_requests)
        = snd (call_next req (client_requests(client_ip_of req \<mapsto>
                 purge (now - real_of_int window_seconds)
                   (window_of client_requests (client_ip_of req)) @ [now])))"
    using c by (simp add: d q_def)
next
  assume a: "RATE_LIMIT_ENABLED st
      \<and> get_limit_for_endpoint st (url_path req) = (max_requests, window_seconds)
      \<and> purge (now - real_of_int window_seconds)
           (window_of client_requests (client_ip_of req)) = oldest # rest
      \<and> max_requests \<le> int (length (oldest # rest))"
  note d = dispatch_rejected [of st req max_requests window_seconds now client_requests
      oldest rest call_next]
  show "status_of (fst (rate_limit_dispatch st call_next now req client_requests)) = Some 429"
    using a d by (simp add: status_of_def JSONResponse_def HTTP_429_TOO_MANY_REQUESTS_def)
  show "header_of (fst (rate_limit_dispatch st call_next now req client_requests))
          ''Retry-After''
        = Some (str (py_int (oldest + real_of_int window_seconds - now) + 1))"
    using a d by (simp add: header_of_def JSONResponse_def)
  show "retry_after_of (fst (rate_limit_dispatch st call_next now req client_requests))
        = Some (JInt (py_int (oldest + real_of_int window_seconds - now) + 1))"
    using a d by (simp add: retry_after_of_def JSONResponse_def)
  show "header_of (fst (rate_limit_dispatch st call_next now req client_requests))
          ''X-RateLimit-Limit'' = None"
    using a d by (simp add: header_of_def JSONResponse_def)
  show "header_of (fst (rate_limit_dispatch st call_next now req client_requests))
          ''X-RateLimit-Remaining'' = None"
    using a d by (simp add: header_of_def JSONResponse_def)
  show "header_of (fst (rate_limit_dispatch st call_next now req client_requests))
          ''X-RateLimit-Reset'' = None"
    using a d by (simp add: header_of_def JSONResponse_def)
next
  assume "\<not> RATE_LIMIT_ENABLED st"
  then show "rate_limit_dispatch st call_next now req client_requests
        = (Inr (fst (call_next req client_requests)), snd (call_next req client_requests))"
    by (rule dispatch_disabled)
qed

theorem rate_limit_headers_witness:
  "header_of (fst (rate_limit_dispatch default_settings (busy_handler ''1.2.3.4'' 1002) 1001
       \<lparr>client_host = Some ''1.2.3.4'', url_path = ''/api/v1/security/login''\<rparr>
       [''1.2.3.4'' \<mapsto> [1000]])) ''X-RateLimit-Limit'' = Some ''5''
   \<and> window_of (snd (rate_limit_dispatch default_settings (busy_handler ''1.2.3.4'' 1002) 1001
       \<lparr>client_host = Some ''1.2.3.4'', url_path = ''/api/v1/security/login''\<rparr>
       [''1.2.3.4'' \<mapsto> [1000]])) ''1.2.3.4'' = [1000, 1001, 1002]
   \<and> header_of (fst (rate_limit_dispatch default_settings (busy_handler ''1.2.3.4'' 1002) 1001
       \<lparr>client_host = Some ''1.2.3.4'', url_path = ''/api/v1/security/login''\<rparr>
       [''1.2.3.4'' \<mapsto> [1000]])) ''X-RateLimit-Remaining'' = Some ''2''
   \<and> header_of (fst (rate_limit_dispatch default_settings (busy_handler ''1.2.3.4'' 1002) 1001
       \<lparr>client_host = Some ''1.2.3.4'', url_path = ''/api/v1/security/login''\<rparr>
       [''1.2.3.4'' \<mapsto> [1000]])) ''X-RateLimit-Reset'' = Some ''1301''
   \<and> status_of (fst (rate_limit_dispatch default_settings ok_handler 1005
       \<lparr>client_host = Some ''1.2.3.4'', url_path = ''/api/v1/security/login''\<rparr>
       [''1.2.3.4'' \<mapsto> [1000, 1001, 1002, 1003, 1004]])) = Some 429
   \<and> header_of (fst (rate_limit_dispatch default_settings ok_handler 1005
       \<lparr>client_host = Some ''1.2.3.4'', url_path = ''/api/v1/security/login''\<rparr>
       [''1.2.3.4'' \<mapsto> [1000, 1001, 1002, 1003, 1004]])) ''Retry-After'' = Some ''296''
   \<and> retry_after_of (fst (rate_limit_dispatch default_settings ok_handler 1005
       \<lparr>client_host = Some ''1.2.3.4'', url_path = ''/api/v1/security/login''\<rparr>
       [''1.2.3.4'' \<mapsto> [1000, 1001, 1002, 1003, 1004]])) = Some (JInt 296)
   \<and> rate_limit_dispatch (default_settings\<lparr>RATE_LIMIT_ENABLED := False\<rparr>) ok_handler 1005
       \<lparr>client_host = Some ''1.2.3.4'', url_path = ''/api/v1/security/login''\<rparr>
       [''1.2.3.4'' \<mapsto> [1000, 1001, 1002, 1003, 1004]]
      = (Inr \<lparr>status_code = 200, content = [], headers = Map.empty\<rparr>,
         [''1.2.3.4'' \<mapsto> [1000, 1001, 1002, 1003, 1004]])"
proof -
  define req :: request where
    "req = \<lparr>client_host = Some ''1.2.3.4'', url_path = ''/api/v1/security/login''\<rparr>"
  define cr1 :: "string \<rightharpoonup> real list" where "cr1 = [''1.2.3.4'' \<mapsto> [1000]]"
  define cr2 :: "string \<rightharpoonup> real list" where
    "cr2 = [''1.2.3.4'' \<mapsto> [1000, 1001, 1002, 1003, 1004]]"
  define busy :: pipeline where "busy = busy_handler ''1.2.3.4'' 1002"
  define off :: settings where "off = default_settings\<lparr>RATE_LIMIT_ENABLED := False\<rparr>"
  have ip: "client_ip_of req = ''1.2.3.4''"
    by (simp add: req_def client_ip_of_def)
  have lim: "get_limit_for_endpoint default_settings (url_path req) = (5, 300)"
    by (simp add: default_settings_def get_limit_for_endpoint_def req_def)
  have en: "RATE_LIMIT_ENABLED default_settings"
    by (simp add: default_settings_def)
  have q1: "purge (1001 - real_of_int 300) (window_of cr1 (client_ip_of req)) = [1000]"
    by (simp add: ip cr1_def window_of_def)
  have q2: "purge (1005 - real_of_int 300) (window_of cr2 (client_ip_of req))
      = 1000 # [1001, 1002, 1003, 1004]"
    by (simp add: ip cr2_def window_of_def)
  have h1: "RATE_LIMIT_ENABLED default_settings
      \<and> get_limit_for_endpoint default_settings (url_path req) = (5, 300)
      \<and> int (length (purge (1001 - real_of_int 300) (window_of cr1 (client_ip_of req)))) < 5"
    using en lim q1 by simp
  have h2: "RATE_LIMIT_ENABLED default_settings
      \<and> get_limit_for_endpoint default_settings (url_path req) = (5, 300)
      \<and> purge (1005 - real_of_int 300) (window_of cr2 (client_ip_of req))
           = 1000 # [1001, 1002, 1003, 1004]
      \<and> 5 \<le> int (length (1000 # [1001, 1002, 1003, 1004 :: real]))"
    using en lim q2 by simp
  have h3: "\<not> RATE_LIMIT_ENABLED off"
    by (simp add: off_def)
  from rate_limit_headers
    [where st = default_settings and req = req and max_requests = 5 and window_seconds = 300
       and now = 1001 and client_requests = cr1 and call_next = busy] h1
  have a: "header_of (fst (rate_limit_dispatch default_settings busy 1001 req cr1))
          ''X-RateLimit-Limit'' = Some (str 5)
      \<and> header_of (fst (rate_limit_dispatch default_settings busy 1001 req cr1))
          ''X-RateLimit-Remaining''
        = Some (str (max 0 (5
            - int (length (window_of (snd (rate_limit_dispatch default_settings busy 1001 req cr1))
                             (client_ip_of req))))))
      \<and> header_of (fst (rate_limit_dispatch default_settings busy 1001 req cr1))
          ''X-RateLimit-Reset'' = Some (str (py_int (1001 + real_of_int 300)))
      \<and> snd (rate_limit_dispatch default_settings busy 1001 req cr1)
        = snd (busy req (cr1(client_ip_of req \<mapsto>
                 purge (1001 - real_of_int 300) (window_of cr1 (client_ip_of req)) @ [1001])))"
    by blast
  then have w1: "window_of (snd (rate_limit_dispatch default_settings busy 1001 req cr1))
      ''1.2.3.4'' = [1000, 1001, 1002]"
    by (simp add: ip cr1_def busy_def busy_handler_def window_of_def)
  from rate_limit_headers
    [where st = default_settings and req = req and max_requests = 5 and window_seconds = 300
       and now = 1005 and client_requests = cr2 and call_next = ok_handler
       and oldest = 1000 and rest = "[1001, 1002, 1003, 1004]"] h2
  have b: "status_of (fst (rate_limit_dispatch default_settings ok_handler 1005 req cr2)) = Some 429
      \<and> header_of (fst (rate_limit_dispatch default_settings ok_handler 1005 req cr2))
          ''Retry-After''
        = Some (str (py_int (1000 + real_of_int 300 - 1005) + 1))
      \<and> retry_after_of (fst (rate_limit_dispatch default_settings ok_handler 1005 req cr2))
        = Some (JInt (py_int (1000 + real_of_int 300 - 1005) + 1))"
    by blast
  from rate_limit_headers
    [where st = off and req = req and now = 1005 and client_requests = cr2
       and call_next = ok_handler] h3
  have c: "rate_limit_dispatch off ok_handler 1005 req cr2
        = (Inr (fst (ok_handler req cr2)), snd (ok_handler req cr2))"
    by blast
  have "py_int (1001 + real_of_int 300) = 1301" "py_int (1000 + real_of_int 300 - 1005) + 1 = 296"
    by (simp_all add: py_int_def)
  with a b c w1 show ?thesis
    unfolding req_def [symmetric] cr1_def [symmetric] cr2_def [symmetric]
      busy_def [symmetric] off_def [symmetric]
    by (simp add: str_examples ip ok_handler_def)
qed

text \<open>
  Claim C4 as stated fails on the rejected path: with the default settings, the sixth
  auth request of a client within the window is answered with status 429 and a response
  that has no \<open>X-RateLimit-Limit\<close>, \<open>X-RateLimit-Remaining\<close> or \<open>X-RateLimit-Reset\<close>
  header.
\<close>

theorem rejected_headers_counterexample:
  "status_of (fst (rate_limit_dispatch default_settings ok_handler 1005
       \<lparr>client_host = Some ''1.2.3.4'', url_path = ''/api/v1/security/login''\<rparr>
       [''1.2.3.4'' \<mapsto> [1000, 1001, 1002, 1003, 1004]])) = Some 429
   \<and> header_of (fst (rate_limit_dispatch default_settings ok_handler 1005
       \<lparr>client_host = Some ''1.2.3.4'', url_path = ''/api/v1/security/login''\<rparr>
       [''1.2.3.4'' \<mapsto> [1000, 1001, 1002, 1003, 1004]])) ''X-RateLimit-Limit'' = None
   \<and> header_of (fst (rate_limit_dispatch default_settings ok_handler 1005
       \<lparr>client_host = Some ''1.2.3.4'', url_path = ''/api/v1/security/login''\<rparr>
       [''1.2.3.4'' \<mapsto> [1000, 1001, 1002, 1003, 1004]])) ''X-RateLimit-Remaining'' = None
   \<and> header_of (fst (rate_limit_dispatch default_settings ok_handler 1005
       \<lparr>client_host = Some ''1.2.3.4'', url_path = ''/api/v1/security/login''\<rparr>
       [''1.2.3.4'' \<mapsto> [1000, 1001, 1002, 1003, 1004]])) ''X-RateLimit-Reset'' = None"
  by (simp add: rate_limit_dispatch_def default_settings_def get_limit_for_endpoint_def
      client_ip_of_def status_of_def header_of_def JSONResponse_def
      HTTP_429_TOO_MANY_REQUESTS_def Let_def)

text \<open>
  Claim C6, as the code has it. When the purged window is not empty and holds at least
  \<open>max_requests\<close> timestamps, the request is rejected with
  \<open>retry_after = int(oldest + window - now) + 1\<close>. The oldest timestamp that survives the
  purge is not older than the window, so the truncation is a floor: the result is the
  ceiling when \<open>oldest + window - now\<close> is not a whole number, and the ceiling plus one
  when it is.
\<close>

theorem retry_after_value:
  assumes "RATE_LIMIT_ENABLED st"
    and "get_limit_for_endpoint st (url_path req) = (max_requests, window_seconds)"
    and "purge (now - real_of_int window_seconds)
           (window_of client_requests (client_ip_of req)) = oldest # rest"
    and "max_requests \<le> int (length (oldest # rest))"
  shows "status_of (fst (rate_limit_dispatch st call_next now req client_requests)) = Some 429
    \<and> retry_after_of (fst (rate_limit_dispatch st call_next now req client_requests))
        = Some (JInt (\<lfloor>oldest + real_of_int window_seconds - now\<rfloor> + 1))
    \<and> retry_after_of (fst (rate_limit_dispatch st call_next now req client_requests))
        = Some (JInt (if oldest + real_of_int window_seconds - now \<in> \<int>
                      then \<lceil>oldest + real_of_int window_seconds - now\<rceil> + 1
                      else \<lceil>oldest + real_of_int window_seconds - now\<rceil>))"
proof -
  have "\<not> oldest < now - real_of_int window_seconds"
    using assms(3) by (rule purge_head)
  then have "py_int (oldest + real_of_int window_seconds - now)
      = \<lfloor>oldest + real_of_int window_seconds - now\<rfloor>"
    by (intro py_int_nonneg) simp
  then have r: "retry_after_of (fst (rate_limit_dispatch st call_next now req client_requests))
        = Some (JInt (\<lfloor>oldest + real_of_int window_seconds - now\<rfloor> + 1))"
    using dispatch_rejected [OF assms, of call_next]
    by (simp add: retry_after_of_def JSONResponse_def)
  have "status_of (fst (rate_limit_dispatch st call_next now req client_requests)) = Some 429"
    using dispatch_rejected [OF assms, of call_next]
    by (simp add: status_of_def JSONResponse_def HTTP_429_TOO_MANY_REQUESTS_def)
  with r show ?thesis
    using floor_plus_one [of "oldest + real_of_int window_seconds - now"] by simp
qed

theorem retry_after_value_witness:
  "status_of (fst (rate_limit_dispatch default_settings ok_handler (2011 / 2)
       \<lparr>client_host = Some ''1.2.3.4'', url_path = ''/api/v1/security/login''\<rparr>
       [''1.2.3.4'' \<mapsto> [1000, 1001, 1002, 1003, 1004]])) = Some 429
   \<and> retry_after_of (fst (rate_limit_dispatch default_settings ok_handler (2011 / 2)
       \<lparr>client_host = Some ''1.2.3.4'', url_path = ''/api/v1/security/login''\<rparr>
       [''1.2.3.4'' \<mapsto> [1000, 1001, 1002, 1003, 1004]])) = Some (JInt 295)
   \<and> \<lceil>(1000::real) + real_of_int 300 - 2011 / 2\<rceil> = 295"
proof -
  define req :: request where
    "req = \<lparr>client_host = Some ''1.2.3.4'', url_path = ''/api/v1/security/login''\<rparr>"
  define cr :: "string \<rightharpoonup> real list" where
    "cr = [''1.2.3.4'' \<mapsto> [1000, 1001, 1002, 1003, 1004]]"
  have ip: "client_ip_of req = ''1.2.3.4''"
    by (simp add: req_def client_ip_of_def)
  have h1: "RATE_LIMIT_ENABLED default_settings"
    by (simp add: default_settings_def)
  have h2: "get_limit_for_endpoint default_settings (url_path req) = (5, 300)"
    by (simp add: default_settings_def get_limit_for_endpoint_def req_def)
  have h3: "purge (2011 / 2 - real_of_int 300) (window_of cr (client_ip_of req))
      = 1000 # [1001, 1002, 1003, 1004]"
    by (simp add: ip cr_def window_of_def)
  have h4: "5 \<le> int (length (1000 # [1001, 1002, 1003, 1004 :: real]))"
    by simp
  have fl: "\<lfloor>(1000::real) + real_of_int 300 - 2011 / 2\<rfloor> = 294"
    by (simp add: floor_eq_iff)
  have ce: "\<lceil>(1000::real) + real_of_int 300 - 2011 / 2\<rceil> = 295"
    by (simp add: ceiling_eq_iff)
  from retry_after_value [OF h1 h2 h3 h4, of ok_handler] fl ce show ?thesis
    unfolding req_def [symmetric] cr_def [symmetric] by simp
qed

text \<open>
  Claim C6 as stated fails when \<open>oldest + window - now\<close> is a whole number: with oldest
  timestamp 1000, window 300 and time 1005 the code answers 296, and the ceiling of
  \<open>1000 + 300 - 1005\<close> is 295.
\<close>

theorem retry_after_ceil_counterexample:
  "retry_after_of (fst (rate_limit_dispatch default_settings ok_handler 1005
       \<lparr>client_host = Some ''1.2.3.4'', url_path = ''/api/v1/security/login''\<rparr>
       [''1.2.3.4'' \<mapsto> [1000, 1001, 1002, 1003, 1004]])) = Some (JInt 296)
   \<and> \<lceil>(1000::real) + real_of_int 300 - 1005\<rceil> = 295"
  by (simp add: rate_limit_dispatch_def default_settings_def get_limit_for_endpoint_def
      client_ip_of_def retry_after_of_def JSONResponse_def py_int_def Let_def)

end
